theory Spec2Isabelle
  imports Main
begin

section \<open>The quiz game's state model (src/state.ts)\<close>

text \<open>
  The reducer of the quiz game maps a state and an action to the next state and a list of
  deferred effects. JavaScript's \<open>undefined\<close> is modelled by \<open>None\<close> wherever the
  running program can hold it: the optional field \<open>currentAnswer\<close>, and every value bound
  by the array pattern \<open>[first, ...rest]\<close>, which yields \<open>undefined\<close> for \<open>first\<close> when
  the array is empty. Reading a property of \<open>undefined\<close> throws a \<open>TypeError\<close>; the
  reducer therefore returns a sum, with \<open>Inl\<close> for the exception.

  The type \<open>Answer\<close> is opaque to state.ts and is the type variable \<open>'a\<close>; the comparison
  \<open>===\<close> on answers is equality. The type \<open>QuestionItem\<close> is opaque as well and is the
  type variable \<open>'i\<close>.
\<close>

text \<open>
  Modelled from the spec: the type \<open>Question\<close> is declared in ./questions, which is not
  part of the sources at hand. The spec describes a prompt, a fixed ordered collection of
  options and a designated correct option; state.ts reads the field \<open>correctOption\<close> only.
\<close>

record 'a Question =
  prompt :: string
  options :: "'a list"
  correctOption :: 'a

text \<open>
  Modelled from the spec: \<open>AnsweredQuestion\<close> is declared in ./questions too; state.ts
  builds it with the fields \<open>question\<close> and \<open>answer\<close>. The field \<open>question\<close> receives the
  value of \<open>currentQuestion\<close>, whatever it is at run time.
\<close>

record 'a AnsweredQuestion =
  question :: "'a Question option"
  answer :: 'a

text \<open>
  \<open>GameState = GameInProgressState | GameEndState\<close>. The interface
  \<open>GameBeforeStartState\<close> is declared but is no member of the union.
\<close>

datatype 'a GameState =
    in_progress
      (answeredQuestions: "'a AnsweredQuestion list")
      (currentQuestion: "'a Question option")
      (currentAnswer: "'a option")
      (nextQuestions: "'a Question list")
  | ended
      (answeredQuestions: "'a AnsweredQuestion list")

record ('i, 'a) State =
  questionItems :: "'i list"
  gameState :: "'a GameState"

text \<open>
  The four actions. The constructors carry the names of the source's constructor functions
  \<open>answerAction\<close>, \<open>nextQuestionAction\<close>, \<open>startGameAction\<close> and \<open>newGameAction\<close>, which
  build the tagged objects and do nothing else.
\<close>

datatype 'a Action =
    answerAction 'a
  | nextQuestionAction
  | startGameAction
  | newGameAction "'a Question list"

datatype error = TypeError

section \<open>Effects\<close>

text \<open>
  An effect is a closure \<open>() => Promise<Array<Action>>\<close>. The source builds closures in two
  places only, \<open>nextQuestion(isAnswerCorrect)\<close> and \<open>newGame(data)\<close>; an effect is
  represented by the name of its builder and the value it captures, and \<open>runEffect\<close> is
  the body of the closure. Running an effect yields the external calls it makes, in order,
  and the actions it resolves to.
\<close>

datatype 'i Effect =
    nextQuestion bool
  | newGame "'i list"

datatype IO = confetti | delay nat

text \<open>
  \<open>makeQuestions\<close> is imported from ./questions and is a parameter of every function
  that calls it.
\<close>

fun runEffect ::
  "(nat \<Rightarrow> 'i list \<Rightarrow> 'a Question list) \<Rightarrow> 'i Effect \<Rightarrow> IO list \<times> 'a Action list" where
  "runEffect makeQuestions (nextQuestion isAnswerCorrect) =
     ((if isAnswerCorrect then [confetti] else []) @ [delay 1500], [nextQuestionAction])"
| "runEffect makeQuestions (newGame data) =
     (let numQuestions = 6;
          questions = makeQuestions numQuestions data
      in ([], [newGameAction questions]))"

text \<open>The result \<open>{ state, effects }\<close> of the reducer.\<close>

record ('s, 'e) Step =
  state :: 's
  effects :: "'e list"

text \<open>
  Modelled from the spec: \<open>noEffects\<close> is imported from ./hooks/useAsyncReducer, which is
  not part of the sources at hand; by the spec a transition without effects returns the
  given state and the empty list of effects.
\<close>

definition noEffects :: "'s \<Rightarrow> ('s, 'e) Step" where
  "noEffects s = \<lparr>state = s, effects = []\<rparr>"

text \<open>The array pattern \<open>const [first, ...rest] = xs\<close>.\<close>

definition destructure :: "'x list \<Rightarrow> 'x option \<times> 'x list" where
  "destructure xs = (case xs of [] \<Rightarrow> (None, []) | x # rest \<Rightarrow> (Some x, rest))"

section \<open>The initial state and the reducer\<close>

definition initState ::
  "(nat \<Rightarrow> 'i list \<Rightarrow> 'a Question list) \<Rightarrow> 'i list \<Rightarrow> ('i, 'a) State" where
  "initState makeQuestions items =
     (let numQuestions = 6;
          (firstQuestion, restQuestions) = destructure (makeQuestions numQuestions items);
          gs = in_progress [] firstQuestion None restQuestions
      in \<lparr>questionItems = items, gameState = gs\<rparr>)"

definition reducer ::
  "('i, 'a) State \<Rightarrow> 'a Action \<Rightarrow> error + (('i, 'a) State, 'i Effect) Step" where
  "reducer s action =
     (case action of
        startGameAction \<Rightarrow> Inr \<lparr>state = s, effects = [newGame (questionItems s)]\<rparr>
      | newGameAction questions \<Rightarrow>
          (let (firstQuestion, restQuestions) = destructure questions;
               gs = in_progress [] firstQuestion None restQuestions
           in Inr (noEffects (s\<lparr>gameState := gs\<rparr>)))
      | answerAction a \<Rightarrow>
          (case gameState s of
             ended _ \<Rightarrow> Inr (noEffects s)
           | in_progress aq cq ca nq \<Rightarrow>
               if ca \<noteq> None then Inr (noEffects s)
               else
                 (case cq of
                    None \<Rightarrow> Inl TypeError
                  | Some q \<Rightarrow>
                      Inr \<lparr>state = s\<lparr>gameState := in_progress aq cq (Some a) nq\<rparr>,
                           effects = [nextQuestion (a = correctOption q)]\<rparr>))
      | nextQuestionAction \<Rightarrow>
          (case gameState s of
             ended _ \<Rightarrow> Inr (noEffects s)
           | in_progress aq cq ca nq \<Rightarrow>
               (case ca of
                  None \<Rightarrow> Inr (noEffects s)
                | Some a \<Rightarrow>
                    (let answeredQuestion = \<lparr>question = cq, answer = a\<rparr>;
                         answered = answeredQuestion # aq
                     in if length nq \<le> 0
                        then Inr (noEffects (s\<lparr>gameState := ended answered\<rparr>))
                        else
                          (let (head, tail) = destructure nq;
                               newGameState = in_progress answered head None tail
                           in Inr (noEffects (s\<lparr>gameState := newGameState\<rparr>)))))))"

section \<open>Runs of the reducer\<close>

text \<open>
  The driver applies the reducer to one action after the other, each to the state the
  previous one returned; an exception ends the run. The states reachable from \<open>s\<close> are
  the results \<open>Inr s'\<close> of \<open>applyActions s actions\<close>.
\<close>

fun applyActions ::
  "('i, 'a) State \<Rightarrow> 'a Action list \<Rightarrow> error + ('i, 'a) State" where
  "applyActions s [] = Inr s"
| "applyActions s (action # actions) =
     (case reducer s action of
        Inl e \<Rightarrow> Inl e
      | Inr r \<Rightarrow> applyActions (state r) actions)"

text \<open>
  The property of a game state that the current question is defined and differs from
  every question of the queue.
\<close>

definition currentQuestionFresh :: "'a GameState \<Rightarrow> bool" where
  "currentQuestionFresh gs =
     (case gs of
        ended _ \<Rightarrow> True
      | in_progress aq cq ca nq \<Rightarrow>
          (case cq of None \<Rightarrow> False | Some q \<Rightarrow> q \<notin> set nq))"

text \<open>
  The stronger property that the current question and the queue together hold no
  question twice.
\<close>

definition queueDistinct :: "'a GameState \<Rightarrow> bool" where
  "queueDistinct gs =
     (case gs of
        ended _ \<Rightarrow> True
      | in_progress aq cq ca nq \<Rightarrow>
          (case cq of None \<Rightarrow> False | Some q \<Rightarrow> distinct (q # nq)))"

text \<open>An action that, if it starts a game, carries a non-empty list without repetition.\<close>

definition freshQuestions :: "'a Action \<Rightarrow> bool" where
  "freshQuestions action =
     (case action of
        newGameAction questions \<Rightarrow> questions \<noteq> [] \<and> distinct questions
      | _ \<Rightarrow> True)"

definition isNewGame :: "'a Action \<Rightarrow> bool" where
  "isNewGame action = (case action of newGameAction _ \<Rightarrow> True | _ \<Rightarrow> False)"

text \<open>
  The number of questions of a session: those answered, the one being asked if the game
  is in progress, and those of the queue (an ended game has no queue).
\<close>

definition sessionTotal :: "'a GameState \<Rightarrow> nat" where
  "sessionTotal gs =
     (case gs of
        in_progress aq cq ca nq \<Rightarrow> length aq + 1 + length nq
      | ended aq \<Rightarrow> length aq + 0 + 0)"

section \<open>Sample data\<close>

text \<open>
  Concrete inputs at which the theorems below are instantiated. \<open>sampleMake\<close> is a
  sample generator (it turns the first \<open>n\<close> items into questions), not the repository's
  \<open>makeQuestions\<close>.
\<close>

definition sampleQuestion :: "nat \<Rightarrow> nat Question" where
  "sampleQuestion i = \<lparr>prompt = ''which'', options = [0, 1, 2, 3], correctOption = i\<rparr>"

definition sampleMake :: "nat \<Rightarrow> nat list \<Rightarrow> nat Question list" where
  "sampleMake n items = map sampleQuestion (take n items)"

definition sampleState :: "nat GameState \<Rightarrow> (nat, nat) State" where
  "sampleState gs = \<lparr>questionItems = [0, 1, 2, 3, 4, 5, 6, 7], gameState = gs\<rparr>"

section \<open>Transitions\<close>

text \<open>
  C1, as amended: in a game in progress whose current question is defined and has no answer
  yet, an \<open>answer\<close> action returns the same state with \<open>currentAnswer\<close> set to the submitted
  answer, and exactly one effect. Running that effect fires the celebratory animation if
  and only if the submitted answer equals the \<open>correctOption\<close> of the current question,
  and it resolves to the single action \<open>next_question\<close>.
\<close>

theorem answer_unanswered:
  assumes "gameState s = in_progress aq (Some q) None nq"
  shows "reducer s (answerAction a) =
           Inr \<lparr>state = s\<lparr>gameState := in_progress aq (Some q) (Some a) nq\<rparr>,
                effects = [nextQuestion (a = correctOption q)]\<rparr>
         \<and> (confetti \<in> set (fst (runEffect mk (nextQuestion (a = correctOption q))))
              \<longleftrightarrow> a = correctOption q)
         \<and> snd (runEffect mk (nextQuestion (a = correctOption q))) = [nextQuestionAction]"
  using assms by (simp add: reducer_def)

theorem answer_unanswered_witness:
  "gameState (sampleState (in_progress [] (Some (sampleQuestion 2)) None [sampleQuestion 3]))
     = in_progress [] (Some (sampleQuestion 2)) None [sampleQuestion 3]
   \<and> reducer (sampleState (in_progress [] (Some (sampleQuestion 2)) None [sampleQuestion 3]))
        (answerAction 2)
     = Inr \<lparr>state = sampleState (in_progress [] (Some (sampleQuestion 2)) (Some 2) [sampleQuestion 3]),
            effects = [nextQuestion True]\<rparr>
   \<and> confetti \<in> set (fst (runEffect sampleMake (nextQuestion True)))
   \<and> reducer (sampleState (in_progress [] (Some (sampleQuestion 2)) None [sampleQuestion 3]))
        (answerAction 1)
     = Inr \<lparr>state = sampleState (in_progress [] (Some (sampleQuestion 2)) (Some 1) [sampleQuestion 3]),
            effects = [nextQuestion False]\<rparr>
   \<and> confetti \<notin> set (fst (runEffect sampleMake (nextQuestion False)))"
  using
    answer_unanswered [of "sampleState (in_progress [] (Some (sampleQuestion 2)) None [sampleQuestion 3])"
      "[]" "sampleQuestion 2" "[sampleQuestion 3]" 2 sampleMake]
    answer_unanswered [of "sampleState (in_progress [] (Some (sampleQuestion 2)) None [sampleQuestion 3])"
      "[]" "sampleQuestion 2" "[sampleQuestion 3]" 1 sampleMake]
  by (simp add: sampleState_def sampleQuestion_def)

text \<open>
  C1 as stated fails where \<open>currentQuestion\<close> is \<open>undefined\<close>: a \<open>new_game\<close> action with
  the empty list produces such a state, and there an \<open>answer\<close> action reads
  \<open>correctOption\<close> of \<open>undefined\<close>, so the reducer throws and returns nothing.
\<close>

theorem answer_undefined_question_throws:
  "reducer (sampleState (ended [])) (newGameAction [])
     = Inr \<lparr>state = sampleState (in_progress [] None None []), effects = []\<rparr>
   \<and> reducer (sampleState (in_progress [] None None [])) (answerAction 0) = Inl TypeError"
  by (simp add: reducer_def sampleState_def noEffects_def destructure_def)

text \<open>
  C2: in a game in progress whose current question has an answer, \<open>next_question\<close> puts
  the pair of the current question and its answer in front of \<open>answeredQuestions\<close>. If the
  queue is not empty, its head becomes the current question, the answer is cleared and the
  queue becomes its tail; if the queue is empty, the game state becomes \<open>ended\<close> with the
  extended list. No effects are returned in either case.
\<close>

theorem next_question_answered:
  assumes "gameState s = in_progress aq cq (Some a) nq"
  shows "reducer s nextQuestionAction =
           Inr \<lparr>state = s\<lparr>gameState :=
                   (case nq of
                      [] \<Rightarrow> ended (\<lparr>question = cq, answer = a\<rparr> # aq)
                    | h # t \<Rightarrow> in_progress (\<lparr>question = cq, answer = a\<rparr> # aq) (Some h) None t)\<rparr>,
                effects = []\<rparr>"
  using assms by (simp add: reducer_def noEffects_def destructure_def split: list.splits)

theorem next_question_answered_witness:
  "reducer (sampleState (in_progress [] (Some (sampleQuestion 2)) (Some 1)
              [sampleQuestion 3, sampleQuestion 0])) nextQuestionAction
     = Inr \<lparr>state = sampleState (in_progress [\<lparr>question = Some (sampleQuestion 2), answer = 1\<rparr>]
                      (Some (sampleQuestion 3)) None [sampleQuestion 0]),
            effects = []\<rparr>
   \<and> reducer (sampleState (in_progress [] (Some (sampleQuestion 2)) (Some 1) [])) nextQuestionAction
     = Inr \<lparr>state = sampleState (ended [\<lparr>question = Some (sampleQuestion 2), answer = 1\<rparr>]),
            effects = []\<rparr>"
  using
    next_question_answered [of "sampleState (in_progress [] (Some (sampleQuestion 2)) (Some 1)
        [sampleQuestion 3, sampleQuestion 0])"
      "[]" "Some (sampleQuestion 2)" 1 "[sampleQuestion 3, sampleQuestion 0]"]
    next_question_answered [of "sampleState (in_progress [] (Some (sampleQuestion 2)) (Some 1) [])"
      "[]" "Some (sampleQuestion 2)" 1 "[]"]
  by (simp add: sampleState_def)

text \<open>
  C3: in every state, whatever its game state, \<open>start_game\<close> returns the state unchanged
  and exactly one effect. Running that effect asks the generator for 6 questions from the
  question items of the state and resolves to the single action \<open>new_game\<close> carrying the
  list the generator returned.
\<close>

theorem start_game_schedules_new_game:
  "reducer s startGameAction = Inr \<lparr>state = s, effects = [newGame (questionItems s)]\<rparr>
   \<and> runEffect mk (newGame (questionItems s)) = ([], [newGameAction (mk 6 (questionItems s))])"
  by (simp add: reducer_def)

text \<open>
  C4: in every state, \<open>new_game\<close> with a non-empty list of questions replaces the game
  state by a game in progress with no answered questions, the first question of the list as
  the current question, no current answer and the rest of the list as the queue; no effects
  are returned.
\<close>

theorem new_game_nonempty:
  assumes "questions \<noteq> []"
  shows "reducer s (newGameAction questions) =
           Inr \<lparr>state = s\<lparr>gameState := in_progress [] (Some (hd questions)) None (tl questions)\<rparr>,
                effects = []\<rparr>"
  using assms by (cases questions) (simp_all add: reducer_def noEffects_def destructure_def)

theorem new_game_nonempty_witness:
  "[sampleQuestion 1, sampleQuestion 2] \<noteq> []
   \<and> reducer (sampleState (ended [\<lparr>question = Some (sampleQuestion 0), answer = 3\<rparr>]))
        (newGameAction [sampleQuestion 1, sampleQuestion 2])
     = Inr \<lparr>state = sampleState (in_progress [] (Some (sampleQuestion 1)) None [sampleQuestion 2]),
            effects = []\<rparr>"
  using new_game_nonempty [of "[sampleQuestion 1, sampleQuestion 2]"
      "sampleState (ended [\<lparr>question = Some (sampleQuestion 0), answer = 3\<rparr>])"]
  by (simp add: sampleState_def)

section \<open>Invariants of runs\<close>

lemma reducer_preserves_queueDistinct:
  assumes "queueDistinct (gameState s)" and "freshQuestions action"
  shows "\<exists>r. reducer s action = Inr r \<and> queueDistinct (gameState (state r))"
proof (cases action)
  case (answerAction a)
  with assms(1) show ?thesis
    by (cases "gameState s")
      (auto simp: reducer_def noEffects_def queueDistinct_def split: option.splits)
next
  case nextQuestionAction
  with assms(1) show ?thesis
    by (cases "gameState s")
      (auto simp: reducer_def noEffects_def queueDistinct_def destructure_def Let_def
        split: option.splits list.splits)
next
  case startGameAction
  with assms(1) show ?thesis by (simp add: reducer_def)
next
  case (newGameAction questions)
  with assms(2) show ?thesis
    by (cases questions)
      (simp_all add: reducer_def noEffects_def queueDistinct_def destructure_def
        freshQuestions_def)
qed

lemma queueDistinct_fresh: "queueDistinct gs \<Longrightarrow> currentQuestionFresh gs"
  by (cases gs) (auto simp: queueDistinct_def currentQuestionFresh_def split: option.splits)

lemma applyActions_queueDistinct:
  "queueDistinct (gameState s) \<Longrightarrow> list_all freshQuestions actions \<Longrightarrow>
   \<exists>s'. applyActions s actions = Inr s' \<and> queueDistinct (gameState s')"
proof (induction actions arbitrary: s)
  case Nil
  then show ?case by simp
next
  case (Cons action actions)
  from Cons.prems obtain r where r: "reducer s action = Inr r"
    and d: "queueDistinct (gameState (state r))"
    using reducer_preserves_queueDistinct [of s action] by auto
  from Cons.prems have "list_all freshQuestions actions" by simp
  from Cons.IH [OF d this] r show ?case by simp
qed

text \<open>
  C5, as amended: start from a state in which, if the game is in progress, the current
  question is defined and the current question and the queue together hold no question
  twice; apply any actions among which every \<open>new_game\<close> carries a non-empty list without
  repetition. Then the reducer never throws, and in the state reached, if the game is in
  progress, the current question is defined and differs from every question of the queue.
\<close>

theorem current_question_fresh_reachable:
  assumes "queueDistinct (gameState s)" and "list_all freshQuestions actions"
  shows "\<exists>s'. applyActions s actions = Inr s'
           \<and> queueDistinct (gameState s') \<and> currentQuestionFresh (gameState s')"
  using applyActions_queueDistinct [OF assms] queueDistinct_fresh by blast

theorem current_question_fresh_reachable_witness:
  "queueDistinct (gameState (initState sampleMake [0, 1, 2, 3, 4, 5, 6, 7]))
   \<and> list_all freshQuestions
        [answerAction 0, nextQuestionAction, startGameAction,
         newGameAction [sampleQuestion 3, sampleQuestion 1], answerAction 2]
   \<and> (\<exists>s'. applyActions (initState sampleMake [0, 1, 2, 3, 4, 5, 6, 7])
               [answerAction 0, nextQuestionAction, startGameAction,
                newGameAction [sampleQuestion 3, sampleQuestion 1], answerAction 2] = Inr s'
           \<and> queueDistinct (gameState s') \<and> currentQuestionFresh (gameState s'))"
proof -
  have start: "queueDistinct (gameState (initState sampleMake [0, 1, 2, 3, 4, 5, 6, 7]))"
    by (simp add: initState_def sampleMake_def sampleQuestion_def destructure_def
        queueDistinct_def)
  have fresh: "list_all freshQuestions
        [answerAction 0, nextQuestionAction, startGameAction,
         newGameAction [sampleQuestion 3, sampleQuestion 1], answerAction 2]"
    by (simp add: freshQuestions_def sampleQuestion_def)
  from start fresh current_question_fresh_reachable [OF start fresh] show ?thesis
    by blast
qed

text \<open>
  C5 as stated fails: the reducer accepts every list of questions. From the initial state,
  \<open>new_game\<close> with the empty list leaves the current question undefined; \<open>new_game\<close>
  with a list that repeats its first question leaves the current question in the queue;
  and after \<open>new_game\<close> with a list that repeats a later question, answering and
  advancing makes that question current while it is still in the queue. The initial state
  itself has an undefined current question when the generator returns no question.
\<close>

theorem current_question_fresh_counterexample:
  "applyActions (initState sampleMake [0, 1, 2, 3, 4, 5, 6, 7]) [newGameAction []]
     = Inr (sampleState (in_progress [] None None []))
   \<and> \<not> currentQuestionFresh (gameState (sampleState (in_progress [] None None [])))
   \<and> applyActions (initState sampleMake [0, 1, 2, 3, 4, 5, 6, 7])
        [newGameAction [sampleQuestion 1, sampleQuestion 1]]
     = Inr (sampleState (in_progress [] (Some (sampleQuestion 1)) None [sampleQuestion 1]))
   \<and> \<not> currentQuestionFresh
         (gameState (sampleState (in_progress [] (Some (sampleQuestion 1)) None [sampleQuestion 1])))
   \<and> applyActions (initState sampleMake [0, 1, 2, 3, 4, 5, 6, 7])
        [newGameAction [sampleQuestion 1, sampleQuestion 2, sampleQuestion 2],
         answerAction 1, nextQuestionAction]
     = Inr (sampleState (in_progress [\<lparr>question = Some (sampleQuestion 1), answer = 1\<rparr>]
              (Some (sampleQuestion 2)) None [sampleQuestion 2]))
   \<and> \<not> currentQuestionFresh
         (gameState (sampleState (in_progress [\<lparr>question = Some (sampleQuestion 1), answer = 1\<rparr>]
              (Some (sampleQuestion 2)) None [sampleQuestion 2])))
   \<and> \<not> currentQuestionFresh (gameState (initState sampleMake []))"
  by (simp add: initState_def sampleMake_def sampleState_def sampleQuestion_def
      reducer_def noEffects_def destructure_def currentQuestionFresh_def)

lemma reducer_sessionTotal:
  assumes "\<not> isNewGame action" and "reducer s action = Inr r"
  shows "sessionTotal (gameState (state r)) = sessionTotal (gameState s)"
proof (cases action)
  case (answerAction a)
  with assms(2) show ?thesis
    by (cases "gameState s")
      (auto simp: reducer_def noEffects_def sessionTotal_def split: option.splits if_splits)
next
  case nextQuestionAction
  with assms(2) show ?thesis
    by (cases "gameState s")
      (auto simp: reducer_def noEffects_def sessionTotal_def destructure_def Let_def
        split: option.splits list.splits if_splits)
next
  case startGameAction
  with assms(2) show ?thesis by (auto simp: reducer_def)
next
  case (newGameAction questions)
  with assms(1) show ?thesis by (simp add: isNewGame_def)
qed

lemma applyActions_sessionTotal:
  "list_all (\<lambda>action. \<not> isNewGame action) actions \<Longrightarrow> applyActions s actions = Inr s' \<Longrightarrow>
   sessionTotal (gameState s') = sessionTotal (gameState s)"
proof (induction actions arbitrary: s)
  case Nil
  then show ?case by simp
next
  case (Cons action actions)
  then obtain r where r: "reducer s action = Inr r"
    by (cases "reducer s action") simp_all
  with Cons.prems have "applyActions (state r) actions = Inr s'" by simp
  moreover from Cons.prems have "list_all (\<lambda>action. \<not> isNewGame action) actions" by simp
  ultimately have "sessionTotal (gameState s') = sessionTotal (gameState (state r))"
    by (rule Cons.IH [rotated])
  moreover from Cons.prems r have "sessionTotal (gameState (state r)) = sessionTotal (gameState s)"
    by (intro reducer_sessionTotal [of action s r]) simp_all
  ultimately show ?case by simp
qed

lemma initState_sessionTotal:
  "mk 6 items \<noteq> [] \<Longrightarrow> sessionTotal (gameState (initState mk items)) = length (mk 6 items)"
  by (cases "mk 6 items") (simp_all add: initState_def destructure_def sessionTotal_def)

lemma newGame_sessionTotal:
  "questions \<noteq> [] \<Longrightarrow>
   \<exists>r. reducer s (newGameAction questions) = Inr r
     \<and> sessionTotal (gameState (state r)) = length questions"
  by (cases questions)
    (simp_all add: reducer_def noEffects_def destructure_def sessionTotal_def)

text \<open>
  C6: along any run of actions that contains no \<open>new_game\<close> (a single session), the sum
  of the number of answered questions, one if the game is in progress, and the length of
  the queue is the same at the end as at the start. It is 6 in the initial state when the
  generator returns the 6 questions asked for, and 6 after a \<open>new_game\<close> that carries 6
  questions.
\<close>

theorem session_total_invariant:
  "(list_all (\<lambda>action. \<not> isNewGame action) actions \<and> applyActions s actions = Inr s'
      \<longrightarrow> sessionTotal (gameState s') = sessionTotal (gameState s))
   \<and> (length (mk 6 items) = 6 \<longrightarrow> sessionTotal (gameState (initState mk items)) = 6)
   \<and> (length questions = 6 \<longrightarrow>
        (\<exists>r. reducer s (newGameAction questions) = Inr r
           \<and> sessionTotal (gameState (state r)) = 6))"
proof (intro conjI impI)
  assume "list_all (\<lambda>action. \<not> isNewGame action) actions \<and> applyActions s actions = Inr s'"
  then show "sessionTotal (gameState s') = sessionTotal (gameState s)"
    using applyActions_sessionTotal by blast
next
  assume len: "length (mk 6 items) = 6"
  then have "mk 6 items \<noteq> []" by auto
  then show "sessionTotal (gameState (initState mk items)) = 6"
    using len by (simp add: initState_sessionTotal)
next
  assume len: "length questions = 6"
  then have "questions \<noteq> []" by auto
  then show "\<exists>r. reducer s (newGameAction questions) = Inr r
           \<and> sessionTotal (gameState (state r)) = 6"
    using len newGame_sessionTotal [of questions s] by simp
qed


theorem session_total_invariant_witness:
  "list_all (\<lambda>action. \<not> isNewGame action)
       [answerAction 0, answerAction 1, nextQuestionAction, startGameAction, nextQuestionAction]
   \<and> applyActions (initState sampleMake [0, 1, 2, 3, 4, 5, 6, 7])
        [answerAction 0, answerAction 1, nextQuestionAction, startGameAction, nextQuestionAction]
     = Inr (sampleState (in_progress [\<lparr>question = Some (sampleQuestion 0), answer = 0\<rparr>]
              (Some (sampleQuestion 1)) None
              [sampleQuestion 2, sampleQuestion 3, sampleQuestion 4, sampleQuestion 5]))
   \<and> sessionTotal (gameState (sampleState (in_progress [\<lparr>question = Some (sampleQuestion 0), answer = 0\<rparr>]
              (Some (sampleQuestion 1)) None
              [sampleQuestion 2, sampleQuestion 3, sampleQuestion 4, sampleQuestion 5])))
     = sessionTotal (gameState (initState sampleMake [0, 1, 2, 3, 4, 5, 6, 7]))
   \<and> length (sampleMake 6 [0, 1, 2, 3, 4, 5, 6, 7]) = 6
   \<and> sessionTotal (gameState (initState sampleMake [0, 1, 2, 3, 4, 5, 6, 7])) = 6
   \<and> length (sampleMake 6 [7, 6, 5, 4, 3, 2, 1, 0]) = 6
   \<and> (\<exists>r. reducer (initState sampleMake [0, 1, 2, 3, 4, 5, 6, 7])
                (newGameAction (sampleMake 6 [7, 6, 5, 4, 3, 2, 1, 0]))
              = Inr r
          \<and> sessionTotal (gameState (state r)) = 6)"
proof -
  have inSession: "list_all (\<lambda>action. \<not> isNewGame action)
       [answerAction 0, answerAction 1, nextQuestionAction, startGameAction, nextQuestionAction]"
    by (simp add: isNewGame_def)
  have run: "applyActions (initState sampleMake [0, 1, 2, 3, 4, 5, 6, 7])
        [answerAction 0, answerAction 1, nextQuestionAction, startGameAction, nextQuestionAction]
     = Inr (sampleState (in_progress [\<lparr>question = Some (sampleQuestion 0), answer = 0\<rparr>]
              (Some (sampleQuestion 1)) None
              [sampleQuestion 2, sampleQuestion 3, sampleQuestion 4, sampleQuestion 5]))"
    by (simp add: initState_def sampleMake_def sampleState_def sampleQuestion_def
        reducer_def noEffects_def destructure_def)
  have generated: "length (sampleMake 6 [0, 1, 2, 3, 4, 5, 6, 7]) = 6"
    by (simp add: sampleMake_def)
  have supplied: "length (sampleMake 6 [7, 6, 5, 4, 3, 2, 1, 0]) = 6"
    by (simp add: sampleMake_def)
  note inv = session_total_invariant
      [of "[answerAction 0, answerAction 1, nextQuestionAction, startGameAction, nextQuestionAction]"
        "initState sampleMake [0, 1, 2, 3, 4, 5, 6, 7]"
        "sampleState (in_progress [\<lparr>question = Some (sampleQuestion 0), answer = 0\<rparr>]
              (Some (sampleQuestion 1)) None
              [sampleQuestion 2, sampleQuestion 3, sampleQuestion 4, sampleQuestion 5])"
        sampleMake "[0, 1, 2, 3, 4, 5, 6, 7]" "sampleMake 6 [7, 6, 5, 4, 3, 2, 1, 0]"]
  from inv inSession run have kept:
    "sessionTotal (gameState (sampleState (in_progress [\<lparr>question = Some (sampleQuestion 0), answer = 0\<rparr>]
              (Some (sampleQuestion 1)) None
              [sampleQuestion 2, sampleQuestion 3, sampleQuestion 4, sampleQuestion 5])))
     = sessionTotal (gameState (initState sampleMake [0, 1, 2, 3, 4, 5, 6, 7]))"
    by (elim conjE) (erule mp, rule conjI)
  from inv generated have atStart:
    "sessionTotal (gameState (initState sampleMake [0, 1, 2, 3, 4, 5, 6, 7])) = 6"
    by (elim conjE) (erule mp)
  from inv supplied have afterNewGame:
    "\<exists>r. reducer (initState sampleMake [0, 1, 2, 3, 4, 5, 6, 7])
                (newGameAction (sampleMake 6 [7, 6, 5, 4, 3, 2, 1, 0]))
              = Inr r
          \<and> sessionTotal (gameState (state r)) = 6"
    by (elim conjE) (erule mp)
  from inSession run kept generated atStart supplied afterNewGame show ?thesis
    by (intro conjI)
qed

text \<open>
  C7: in an ended game, an \<open>answer\<close> action and a \<open>next_question\<close> action each return
  the state unchanged and no effects.
\<close>

theorem ended_ignores_answer_and_next_question:
  assumes "gameState s = ended aq"
  shows "reducer s (answerAction a) = Inr \<lparr>state = s, effects = []\<rparr>
         \<and> reducer s nextQuestionAction = Inr \<lparr>state = s, effects = []\<rparr>"
  using assms by (simp add: reducer_def noEffects_def)

theorem ended_ignores_answer_and_next_question_witness:
  "reducer (sampleState (ended [\<lparr>question = Some (sampleQuestion 0), answer = 3\<rparr>])) (answerAction 2)
     = Inr \<lparr>state = sampleState (ended [\<lparr>question = Some (sampleQuestion 0), answer = 3\<rparr>]),
            effects = []\<rparr>
   \<and> reducer (sampleState (ended [\<lparr>question = Some (sampleQuestion 0), answer = 3\<rparr>]))
        nextQuestionAction
     = Inr \<lparr>state = sampleState (ended [\<lparr>question = Some (sampleQuestion 0), answer = 3\<rparr>]),
            effects = []\<rparr>"
  using ended_ignores_answer_and_next_question
    [of "sampleState (ended [\<lparr>question = Some (sampleQuestion 0), answer = 3\<rparr>])"
      "[\<lparr>question = Some (sampleQuestion 0), answer = 3\<rparr>]" 2]
  by (simp add: sampleState_def)

lemma reducer_answered_answer:
  "gameState s = in_progress aq cq (Some a) nq \<Longrightarrow>
   reducer s (answerAction b) = Inr \<lparr>state = s, effects = []\<rparr>"
  by (simp add: reducer_def noEffects_def)

text \<open>
  C8: in a game in progress whose current question already has an answer, an \<open>answer\<close>
  action returns the state unchanged and no effects. Hence any number of further
  \<open>answer\<close> actions leaves the state, and with it the recorded answer, as it is.
\<close>

theorem second_answer_noop:
  assumes "gameState s = in_progress aq cq (Some a) nq"
  shows "reducer s (answerAction b) = Inr \<lparr>state = s, effects = []\<rparr>
         \<and> applyActions s (map answerAction bs) = Inr s"
proof
  show "reducer s (answerAction b) = Inr \<lparr>state = s, effects = []\<rparr>"
    using assms by (rule reducer_answered_answer)
  show "applyActions s (map answerAction bs) = Inr s"
    using assms by (induction bs) (simp_all add: reducer_answered_answer)
qed

theorem second_answer_noop_witness:
  "reducer (sampleState (in_progress [] (Some (sampleQuestion 2)) (Some 1) [sampleQuestion 3]))
        (answerAction 2)
     = Inr \<lparr>state = sampleState (in_progress [] (Some (sampleQuestion 2)) (Some 1) [sampleQuestion 3]),
            effects = []\<rparr>
   \<and> applyActions (sampleState (in_progress [] (Some (sampleQuestion 2)) (Some 1) [sampleQuestion 3]))
        [answerAction 2, answerAction 3]
     = Inr (sampleState (in_progress [] (Some (sampleQuestion 2)) (Some 1) [sampleQuestion 3]))"
proof -
  have answered:
    "gameState (sampleState (in_progress [] (Some (sampleQuestion 2)) (Some 1) [sampleQuestion 3]))
       = in_progress [] (Some (sampleQuestion 2)) (Some 1) [sampleQuestion 3]"
    by (simp add: sampleState_def)
  from second_answer_noop [OF answered, of 2 "[2, 3]"] show ?thesis
    by (simp del: applyActions.simps)
qed

text \<open>
  C9: in a game in progress whose current question has no answer yet, \<open>next_question\<close>
  returns the state unchanged and no effects.
\<close>

theorem next_question_unanswered_noop:
  assumes "gameState s = in_progress aq cq None nq"
  shows "reducer s nextQuestionAction = Inr \<lparr>state = s, effects = []\<rparr>"
  using assms by (simp add: reducer_def noEffects_def)

theorem next_question_unanswered_noop_witness:
  "reducer (sampleState (in_progress [] (Some (sampleQuestion 1)) None [sampleQuestion 2]))
        nextQuestionAction
     = Inr \<lparr>state = sampleState (in_progress [] (Some (sampleQuestion 1)) None [sampleQuestion 2]),
            effects = []\<rparr>"
  using next_question_unanswered_noop
    [of "sampleState (in_progress [] (Some (sampleQuestion 1)) None [sampleQuestion 2])"
      "[]" "Some (sampleQuestion 1)" "[sampleQuestion 2]"]
  by (simp add: sampleState_def)

text \<open>
  C10: in every state, \<open>new_game\<close> with the empty list is neither rejected nor ignored:
  the game state becomes a game in progress with no answered questions, an undefined
  current question, no current answer and an empty queue; no effects are returned.
\<close>

theorem new_game_empty:
  "reducer s (newGameAction []) =
     Inr \<lparr>state = s\<lparr>gameState := in_progress [] None None []\<rparr>, effects = []\<rparr>"
  by (simp add: reducer_def noEffects_def destructure_def)

end
